theory Spec2Isabelle
  imports Complex_Main "HOL-Library.Word"
begin

section \<open>The image pipeline of \<^verbatim>\<open>src/compress.js\<close>\<close>

text \<open>
  The module builds a pipeline on an instance of the image library (\<^verbatim>\<open>sharp\<close>): every
  method call records one operation on the instance and returns the instance. The
  instance is modelled by the flag it was constructed with and the list of the calls made
  on it so far, oldest first; \<^verbatim>\<open>sharpInstance = sharpInstance.f(x)\<close> appends one call. What
  the library does with the calls (filtering, scaling, encoding) is outside the module
  and is a parameter of the model.

  Numbers: widths, heights, sizes and the quality are JavaScript numbers holding
  integers and are modelled as \<open>int\<close>; only comparisons, one product and one difference
  are computed on them. The filter constants (0.85, 0.4, ...) are never computed with, only
  passed on, and are modelled as the decimal fractions the source writes.
\<close>

subsection \<open>Data\<close>

datatype format = JPEG | AVIF | WEBP

fun format_name :: "format \<Rightarrow> string" where
  "format_name JPEG = ''jpeg''"
| "format_name AVIF = ''avif''"
| "format_name WEBP = ''webp''"

text \<open>The object returned by \<^verbatim>\<open>optimizeAvifParams\<close>.\<close>

record avif_params =
  tileRows :: int
  tileCols :: int
  minQuantizer :: int
  maxQuantizer :: int
  effort :: int

text \<open>One entry of \<^verbatim>\<open>settings\<close> in \<^verbatim>\<open>applyArtifactReduction\<close>.\<close>

record artifact_settings =
  blurRadius :: real
  denoiseStrength :: real
  sharpenSigma :: real
  saturationReduction :: real

text \<open>
  The options object given to \<^verbatim>\<open>toFormat\<close>. A key that is absent or \<^verbatim>\<open>undefined\<close> is
  \<open>None\<close>.
\<close>

record format_options =
  opt_quality :: int
  opt_alphaQuality :: "int option"
  opt_smartSubsample :: "bool option"
  opt_chromaSubsampling :: "string option"
  opt_tileRows :: "int option"
  opt_tileCols :: "int option"
  opt_minQuantizer :: "int option"
  opt_maxQuantizer :: "int option"
  opt_effort :: "int option"
  opt_loop :: "int option"

datatype fit = Inside

text \<open>The method calls the module makes on an instance, with their arguments.\<close>

datatype sharp_call =
    Grayscale
  | Modulate real
  | Blur real
  | Sharpen "real list"
  | Gamma
  | Resize int int fit
  | ToFormat format format_options

record sharp_instance =
  animated :: bool
  calls :: "sharp_call list"

definition sharp :: "bool \<Rightarrow> sharp_instance" where
  "sharp isAnim = \<lparr>animated = isAnim, calls = []\<rparr>"

definition call :: "sharp_call \<Rightarrow> sharp_instance \<Rightarrow> sharp_instance" where
  "call c s = s\<lparr>calls := calls s @ [c]\<rparr>"

text \<open>What \<^verbatim>\<open>sharp(input).metadata()\<close> resolves to; \<^verbatim>\<open>pages\<close> may be absent.\<close>

record metadata =
  width :: int
  height :: int
  pages :: "int option"

text \<open>\<^verbatim>\<open>req.params\<close>; \<^verbatim>\<open>webp\<close> and \<^verbatim>\<open>grayscale\<close> are read for their truthiness only.\<close>

record params =
  webp :: bool
  grayscale :: bool
  quality :: int
  originSize :: "int option"
  url :: string

type_synonym buffer = "8 word list"

text \<open>The headers and body that \<^verbatim>\<open>sendImage\<close> writes.\<close>

record response =
  content_type :: string
  content_length :: nat
  content_disposition :: string
  x_content_type_options :: string
  x_original_size :: int
  x_bytes_saved :: int
  status :: nat
  body :: buffer

text \<open>
  The collaborators: the result of decoding the metadata, the encoder
  (\<^verbatim>\<open>toBuffer\<close>, which fails with a message or yields the bytes and \<^verbatim>\<open>info.size\<close>), whether the
  response headers have been sent already, and the two library functions used for the file
  name (\<^verbatim>\<open>new URL(url).pathname\<close>, which throws on a malformed URL, and
  \<^verbatim>\<open>encodeURIComponent\<close>).
\<close>

record collaborators =
  metadata_result :: "string + metadata"
  toBuffer :: "sharp_instance \<Rightarrow> string + (buffer \<times> int)"
  headersSent :: bool
  new_URL_pathname :: "string \<Rightarrow> string + string"
  encodeURIComponent :: "string \<Rightarrow> string"

datatype outcome = Sent response | Returned | Redirected

text \<open>
  What one run of \<^verbatim>\<open>compress\<close> did: the instances handed to the encoder, in order, and how
  the run ended (\<open>Returned\<close>: the early return when the headers were sent already;
  \<open>Redirected\<close>: the outer \<^verbatim>\<open>catch\<close>, which delegates to \<^verbatim>\<open>redirect\<close>).
\<close>

record run =
  attempts :: "sharp_instance list"
  outcome :: outcome

subsection \<open>Constants\<close>

record sharpen_params =
  sigma :: real
  flat :: real
  jagged :: real

definition sharpenParams :: sharpen_params where
  "sharpenParams = \<lparr>sigma = 1.0, flat = 1.0, jagged = 0.5\<rparr>"

definition MAX_HEIF_DIMENSION :: int where
  "MAX_HEIF_DIMENSION = 16384"

subsection \<open>\<^verbatim>\<open>optimizeAvifParams\<close>\<close>

definition optimizeAvifParams :: "int \<Rightarrow> int \<Rightarrow> avif_params" where
  "optimizeAvifParams w h =
     (let largeImageThreshold = 2000; mediumImageThreshold = 1000
      in if w > largeImageThreshold \<or> h > largeImageThreshold
         then \<lparr>tileRows = 4, tileCols = 4, minQuantizer = 30, maxQuantizer = 50, effort = 3\<rparr>
         else if w > mediumImageThreshold \<or> h > mediumImageThreshold
         then \<lparr>tileRows = 2, tileCols = 2, minQuantizer = 28, maxQuantizer = 48, effort = 4\<rparr>
         else \<lparr>tileRows = 1, tileCols = 1, minQuantizer = 26, maxQuantizer = 48, effort = 4\<rparr>)"

subsection \<open>\<^verbatim>\<open>applyArtifactReduction\<close>\<close>

text \<open>The destructured object of lines 121 to 128: the tier chosen for a pixel count.\<close>

definition select_settings :: "int \<Rightarrow> artifact_settings" where
  "select_settings pixelCount =
     (let large = 3000000; medium = 1000000; small = 500000
      in if pixelCount > large
         then \<lparr>blurRadius = 0.4, denoiseStrength = 0.15, sharpenSigma = 0.8,
               saturationReduction = 0.85\<rparr>
         else if pixelCount > medium
         then \<lparr>blurRadius = 0.35, denoiseStrength = 0.12, sharpenSigma = 0.6,
               saturationReduction = 0.9\<rparr>
         else if pixelCount > small
         then \<lparr>blurRadius = 0.3, denoiseStrength = 0.1, sharpenSigma = 0.5,
               saturationReduction = 0.95\<rparr>
         else \<lparr>blurRadius = 0.3, denoiseStrength = 0.1, sharpenSigma = 0.5,
               saturationReduction = 1.0\<rparr>)"

text \<open>The chain of lines 130 to 134, on the destructured values.\<close>

definition filter_chain :: "artifact_settings \<Rightarrow> sharp_instance \<Rightarrow> sharp_instance" where
  "filter_chain t s =
     call Gamma
       (call (Sharpen [sharpenSigma t])
          (call (Blur (blurRadius t))
             (call (Modulate (saturationReduction t)) s)))"

definition applyArtifactReduction :: "sharp_instance \<Rightarrow> int \<Rightarrow> sharp_instance" where
  "applyArtifactReduction sharpInstance pixelCount =
     filter_chain (select_settings pixelCount) sharpInstance"

subsection \<open>\<^verbatim>\<open>sendImage\<close>\<close>

text \<open>\<^verbatim>\<open>originSize || 0\<close>: an absent or zero size is 0.\<close>

definition or_zero :: "int option \<Rightarrow> int" where
  "or_zero x = (case x of None \<Rightarrow> 0 | Some n \<Rightarrow> if n = 0 then 0 else n)"

text \<open>\<^verbatim>\<open>pathname.split('/').pop()\<close>: what follows the last slash.\<close>

definition last_segment :: "string \<Rightarrow> string" where
  "last_segment pathname = rev (takeWhile (\<lambda>c. c \<noteq> CHR ''/'') (rev pathname))"

text \<open>
  \<^verbatim>\<open>sendImage\<close> fails where \<^verbatim>\<open>new URL(url)\<close> throws, and where \<^verbatim>\<open>setHeader\<close> throws because
  the headers were sent already; otherwise it writes the response.
\<close>

definition sendImage ::
  "collaborators \<Rightarrow> buffer \<Rightarrow> format \<Rightarrow> string \<Rightarrow> int option \<Rightarrow> int \<Rightarrow> string + response" where
  "sendImage env data imgFormat u origSize compressedSize =
     (case new_URL_pathname env u of
        Inl msg \<Rightarrow> Inl msg
      | Inr pathname \<Rightarrow>
          (let seg = last_segment pathname;
               filename = encodeURIComponent env (if seg = [] then ''image'' else seg)
                            @ ''.'' @ format_name imgFormat
           in if headersSent env
              then Inl ''Cannot set headers after they are sent to the client''
              else Inr \<lparr>content_type = ''image/'' @ format_name imgFormat,
                        content_length = length data,
                        content_disposition = ''inline; filename=\"'' @ filename @ ''\"'',
                        x_content_type_options = ''nosniff'',
                        x_original_size = or_zero origSize,
                        x_bytes_saved = max (or_zero origSize - compressedSize) 0,
                        status = 200,
                        body = data\<rparr>))"

subsection \<open>\<^verbatim>\<open>compress\<close>\<close>

text \<open>\<^verbatim>\<open>pages && pages > 1\<close>, read as a condition.\<close>

definition isAnimated :: "metadata \<Rightarrow> bool" where
  "isAnimated m = (case pages m of None \<Rightarrow> False | Some p \<Rightarrow> p \<noteq> 0 \<and> p > 1)"

definition pixelCount :: "metadata \<Rightarrow> int" where
  "pixelCount m = width m * height m"

text \<open>Lines 18 and 26: the output format of the first attempt.\<close>

definition initial_format :: "params \<Rightarrow> metadata \<Rightarrow> format" where
  "initial_format req m =
     (let fmt = (if webp req then AVIF else JPEG)
      in if isAnimated m then WEBP else fmt)"

text \<open>Lines 30 to 68: the instance handed to the encoder on the first attempt.\<close>

definition initial_pipeline :: "params \<Rightarrow> metadata \<Rightarrow> sharp_instance" where
  "initial_pipeline req m =
     (let outputFormat = initial_format req m;
          t = optimizeAvifParams (width m) (height m);
          s0 = sharp (isAnimated m);
          s1 = (if grayscale req then call Grayscale s0 else s0);
          s2 = (if \<not> isAnimated m
                then (let a = (if outputFormat = JPEG \<or> outputFormat = AVIF
                               then applyArtifactReduction s1 (pixelCount m) else s1)
                      in if pixelCount m > 500000
                         then call (Sharpen [sigma sharpenParams, flat sharpenParams,
                                             jagged sharpenParams]) a
                         else a)
                else s1);
          s3 = (if outputFormat = AVIF
                     \<and> (width m > MAX_HEIF_DIMENSION \<or> height m > MAX_HEIF_DIMENSION)
                then call (Resize (min (width m) MAX_HEIF_DIMENSION)
                                  (min (height m) MAX_HEIF_DIMENSION) Inside) s2
                else s2)
      in call (ToFormat outputFormat
                 \<lparr>opt_quality = quality req,
                  opt_alphaQuality = Some 80,
                  opt_smartSubsample = Some True,
                  opt_chromaSubsampling = Some ''4:2:0'',
                  opt_tileRows = (if outputFormat = AVIF then Some (tileRows t) else None),
                  opt_tileCols = (if outputFormat = AVIF then Some (tileCols t) else None),
                  opt_minQuantizer = (if outputFormat = AVIF then Some (minQuantizer t) else None),
                  opt_maxQuantizer = (if outputFormat = AVIF then Some (maxQuantizer t) else None),
                  opt_effort = (if outputFormat = AVIF then Some (effort t) else None),
                  opt_loop = (if isAnimated m then Some 0 else None)\<rparr>) s3)"

text \<open>\<^verbatim>\<open>String.prototype.includes\<close>.\<close>

fun str_includes :: "string \<Rightarrow> string \<Rightarrow> bool" where
  "str_includes [] sub = (sub = [])"
| "str_includes (c # cs) sub = (take (length sub) (c # cs) = sub \<or> str_includes cs sub)"

text \<open>The options object of line 84: the quality and nothing else.\<close>

definition quality_only :: "int \<Rightarrow> format_options" where
  "quality_only q =
     \<lparr>opt_quality = q, opt_alphaQuality = None, opt_smartSubsample = None,
      opt_chromaSubsampling = None, opt_tileRows = None, opt_tileCols = None,
      opt_minQuantizer = None, opt_maxQuantizer = None, opt_effort = None,
      opt_loop = None\<rparr>"

text \<open>Line 83: the output format of the second attempt.\<close>

definition fallback_format :: "metadata \<Rightarrow> format" where
  "fallback_format m = (if isAnimated m then WEBP else JPEG)"

text \<open>
  Line 84: the second attempt is made on the instance of the first one, with one more
  \<^verbatim>\<open>toFormat\<close> call.
\<close>

definition fallback_pipeline :: "params \<Rightarrow> metadata \<Rightarrow> sharp_instance \<Rightarrow> sharp_instance" where
  "fallback_pipeline req m sharpInstance =
     call (ToFormat (fallback_format m) (quality_only (quality req))) sharpInstance"

text \<open>
  The inner \<^verbatim>\<open>catch\<close> (lines 80 to 91), entered with the message of whatever the inner
  \<^verbatim>\<open>try\<close> threw. An error of the second attempt, or of its \<^verbatim>\<open>sendImage\<close>, reaches the outer
  \<^verbatim>\<open>catch\<close>.
\<close>

definition on_error :: "collaborators \<Rightarrow> params \<Rightarrow> metadata \<Rightarrow> sharp_instance \<Rightarrow> string \<Rightarrow> run" where
  "on_error env req m s msg =
     (if str_includes msg ''too large for the HEIF format''
      then (let s' = fallback_pipeline req m s
            in case toBuffer env s' of
                 Inl e \<Rightarrow> \<lparr>attempts = [s, s'], outcome = Redirected\<rparr>
               | Inr (output, sz) \<Rightarrow>
                   (case sendImage env output (fallback_format m) (url req) (originSize req) sz of
                      Inl e \<Rightarrow> \<lparr>attempts = [s, s'], outcome = Redirected\<rparr>
                    | Inr r \<Rightarrow> \<lparr>attempts = [s, s'], outcome = Sent r\<rparr>))
      else \<lparr>attempts = [s], outcome = Redirected\<rparr>)"

definition compress :: "collaborators \<Rightarrow> params \<Rightarrow> run" where
  "compress env req =
     (case metadata_result env of
        Inl err \<Rightarrow> \<lparr>attempts = [], outcome = Redirected\<rparr>
      | Inr m \<Rightarrow>
          (let s = initial_pipeline req m
           in case toBuffer env s of
                Inl msg \<Rightarrow> on_error env req m s msg
              | Inr (output, sz) \<Rightarrow>
                  if headersSent env then \<lparr>attempts = [s], outcome = Returned\<rparr>
                  else (case sendImage env output (initial_format req m) (url req)
                               (originSize req) sz of
                          Inl msg \<Rightarrow> on_error env req m s msg
                        | Inr r \<Rightarrow> \<lparr>attempts = [s], outcome = Sent r\<rparr>)))"

subsection \<open>Reading a pipeline\<close>

text \<open>
  The format and options an instance encodes with are those of its latest \<^verbatim>\<open>toFormat\<close>
  call; its resize target is that of its latest \<^verbatim>\<open>resize\<close> call.
\<close>

fun output_config :: "sharp_call list \<Rightarrow> (format \<times> format_options) option" where
  "output_config [] = None"
| "output_config (c # cs) =
     (case output_config cs of
        Some r \<Rightarrow> Some r
      | None \<Rightarrow> (case c of ToFormat f opts \<Rightarrow> Some (f, opts) | _ \<Rightarrow> None))"

fun resizeTarget :: "sharp_call list \<Rightarrow> (int \<times> int \<times> fit) option" where
  "resizeTarget [] = None"
| "resizeTarget (c # cs) =
     (case resizeTarget cs of
        Some r \<Rightarrow> Some r
      | None \<Rightarrow> (case c of Resize w h f \<Rightarrow> Some (w, h, f) | _ \<Rightarrow> None))"


subsection \<open>The library's fit mode\<close>

text \<open>
  The resize itself is done by the image library, outside this module. Its mode
  \<^verbatim>\<open>inside\<close> keeps the aspect ratio and makes the image as large as fits in the box given;
  this is the size it yields for an image of \<open>w\<close> by \<open>h\<close> and a box of \<open>bw\<close> by \<open>bh\<close>
  (all positive, the quotient rounded to the nearest integer). The module only ever passes
  a box no larger than the image.
\<close>

definition fit_inside :: "int \<times> int \<Rightarrow> int \<times> int \<Rightarrow> int \<times> int" where
  "fit_inside img box =
     (let w = fst img; h = snd img; bw = fst box; bh = snd box
      in if bw * h \<le> bh * w then (bw, (2 * h * bw + w) div (2 * w))
         else ((2 * w * bh + h) div (2 * h), bh))"

subsection \<open>Collaborators used in the examples\<close>

text \<open>A server whose headers are still unsent, a URL that parses, an encoder that works.\<close>

definition working_env :: collaborators where
  "working_env =
     \<lparr>metadata_result = Inr \<lparr>width = 640, height = 480, pages = None\<rparr>,
      toBuffer = (\<lambda>s. Inr ([], 1500)),
      headersSent = False,
      new_URL_pathname = (\<lambda>u. Inr ''/img/photo.png''),
      encodeURIComponent = (\<lambda>x. x)\<rparr>"

text \<open>The same server, with the metadata and the encoder given.\<close>

definition env_with ::
  "metadata \<Rightarrow> (sharp_instance \<Rightarrow> string + (buffer \<times> int)) \<Rightarrow> collaborators" where
  "env_with md enc =
     \<lparr>metadata_result = Inr md,
      toBuffer = enc,
      headersSent = False,
      new_URL_pathname = (\<lambda>u. Inr ''/img/photo.png''),
      encodeURIComponent = (\<lambda>x. x)\<rparr>"

text \<open>An encoder that refuses AVIF output with the library's HEIF size message.\<close>

definition rejects_heif :: "sharp_instance \<Rightarrow> string + (buffer \<times> int)" where
  "rejects_heif s =
     (case output_config (calls s) of
        Some (AVIF, opts) \<Rightarrow> Inl ''Processed image is too large for the HEIF format''
      | _ \<Rightarrow> Inr ([], 1500))"

text \<open>An encoder that gives the HEIF size message whatever it is asked.\<close>

definition always_too_large :: "sharp_instance \<Rightarrow> string + (buffer \<times> int)" where
  "always_too_large s = Inl ''Processed image is too large for the HEIF format''"

text \<open>An encoder that fails with another message.\<close>

definition always_broken :: "sharp_instance \<Rightarrow> string + (buffer \<times> int)" where
  "always_broken s = Inl ''Input buffer contains unsupported image format''"

section \<open>Properties\<close>

subsection \<open>Reading what was appended last\<close>

lemma calls_call: "calls (call c s) = calls s @ [c]"
  by (simp add: call_def)

lemma animated_call: "animated (call c s) = animated s"
  by (simp add: call_def)

lemma output_config_snoc:
  "output_config (cs @ [c]) =
     (case c of ToFormat f opts \<Rightarrow> Some (f, opts) | _ \<Rightarrow> output_config cs)"
  by (induction cs) (auto split: sharp_call.splits option.splits)

lemma resizeTarget_snoc:
  "resizeTarget (cs @ [c]) =
     (case c of Resize w h f \<Rightarrow> Some (w, h, f) | _ \<Rightarrow> resizeTarget cs)"
  by (induction cs) (auto split: sharp_call.splits option.splits)

lemma calls_applyArtifactReduction:
  "calls (applyArtifactReduction s p) =
     calls s @ [Modulate (saturationReduction (select_settings p)),
                Blur (blurRadius (select_settings p)),
                Sharpen [sharpenSigma (select_settings p)], Gamma]"
  by (simp add: applyArtifactReduction_def filter_chain_def calls_call)

lemma isAnimated_pages: "isAnimated m \<longleftrightarrow> (\<exists>p. pages m = Some p \<and> 1 < p)"
  by (auto simp: isAnimated_def split: option.splits)

subsection \<open>Format selection\<close>

text \<open>
  C3. The format of the first attempt is WEBP whenever the image is animated (its page
  count is present and above 1), whatever the client asked for; for a static image it is
  AVIF when the client accepts the modern format and JPEG otherwise. It is the format of
  the \<^verbatim>\<open>toFormat\<close> call of the first attempt.
\<close>

theorem format_selection:
  "(isAnimated m \<longleftrightarrow> (\<exists>p. pages m = Some p \<and> 1 < p))
   \<and> (isAnimated m \<longrightarrow> initial_format req m = WEBP)
   \<and> (\<not> isAnimated m \<and> webp req \<longrightarrow> initial_format req m = AVIF)
   \<and> (\<not> isAnimated m \<and> \<not> webp req \<longrightarrow> initial_format req m = JPEG)
   \<and> map_option fst (output_config (calls (initial_pipeline req m)))
       = Some (initial_format req m)"
proof -
  have "map_option fst (output_config (calls (initial_pipeline req m)))
          = Some (initial_format req m)"
    by (simp add: initial_pipeline_def Let_def calls_call output_config_snoc)
  moreover have "isAnimated m \<longrightarrow> initial_format req m = WEBP"
    by (simp add: initial_format_def)
  moreover have "\<not> isAnimated m \<and> webp req \<longrightarrow> initial_format req m = AVIF"
    by (simp add: initial_format_def)
  moreover have "\<not> isAnimated m \<and> \<not> webp req \<longrightarrow> initial_format req m = JPEG"
    by (simp add: initial_format_def)
  ultimately show ?thesis
    using isAnimated_pages [of m] by blast
qed

theorem format_selection_witness:
  "initial_format \<lparr>webp = True, grayscale = False, quality = 80, originSize = None,
                   url = ''http://example.com/a.gif''\<rparr>
                  \<lparr>width = 640, height = 480, pages = Some 12\<rparr> = WEBP
   \<and> initial_format \<lparr>webp = True, grayscale = False, quality = 80, originSize = None,
                     url = ''http://example.com/a.png''\<rparr>
                    \<lparr>width = 640, height = 480, pages = None\<rparr> = AVIF
   \<and> initial_format \<lparr>webp = False, grayscale = False, quality = 80, originSize = None,
                     url = ''http://example.com/a.png''\<rparr>
                    \<lparr>width = 640, height = 480, pages = Some 1\<rparr> = JPEG"
  using
    format_selection [of "\<lparr>width = 640, height = 480, pages = Some 12\<rparr>"
      "\<lparr>webp = True, grayscale = False, quality = 80, originSize = None,
        url = ''http://example.com/a.gif''\<rparr>"]
    format_selection [of "\<lparr>width = 640, height = 480, pages = None\<rparr>"
      "\<lparr>webp = True, grayscale = False, quality = 80, originSize = None,
        url = ''http://example.com/a.png''\<rparr>"]
    format_selection [of "\<lparr>width = 640, height = 480, pages = Some 1\<rparr>"
      "\<lparr>webp = False, grayscale = False, quality = 80, originSize = None,
        url = ''http://example.com/a.png''\<rparr>"]
  by simp

subsection \<open>Tier tables\<close>

text \<open>
  C5. The artifact-reduction tier follows the thresholds 3,000,000, 1,000,000 and 500,000
  on the pixel count, largest first, and each range gets the tuple of the table: above
  3,000,000 blur 0.4, denoise 0.15, sharpen 0.8, saturation 0.85; above 1,000,000 the tuple
  0.35, 0.12, 0.6, 0.9; above 500,000 the tuple 0.3, 0.1, 0.5, 0.95; at 500,000 or below
  the tuple 0.3, 0.1, 0.5, 1.0. The stage applies the chosen saturation, blur and sharpen
  for every pixel count, so the lowest tier still blurs with radius 0.3.
\<close>

theorem artifact_tier_table:
  "(3000000 < p \<longrightarrow>
      select_settings p = \<lparr>blurRadius = 0.4, denoiseStrength = 0.15, sharpenSigma = 0.8,
                           saturationReduction = 0.85\<rparr>)
   \<and> (1000000 < p \<and> p \<le> 3000000 \<longrightarrow>
      select_settings p = \<lparr>blurRadius = 0.35, denoiseStrength = 0.12, sharpenSigma = 0.6,
                           saturationReduction = 0.9\<rparr>)
   \<and> (500000 < p \<and> p \<le> 1000000 \<longrightarrow>
      select_settings p = \<lparr>blurRadius = 0.3, denoiseStrength = 0.1, sharpenSigma = 0.5,
                           saturationReduction = 0.95\<rparr>)
   \<and> (p \<le> 500000 \<longrightarrow>
      select_settings p = \<lparr>blurRadius = 0.3, denoiseStrength = 0.1, sharpenSigma = 0.5,
                           saturationReduction = 1.0\<rparr>)
   \<and> calls (applyArtifactReduction s p) =
       calls s @ [Modulate (saturationReduction (select_settings p)),
                  Blur (blurRadius (select_settings p)),
                  Sharpen [sharpenSigma (select_settings p)], Gamma]"
proof -
  have "3000000 < p \<longrightarrow>
      select_settings p = \<lparr>blurRadius = 0.4, denoiseStrength = 0.15, sharpenSigma = 0.8,
                           saturationReduction = 0.85\<rparr>"
    by (simp add: select_settings_def)
  moreover have "1000000 < p \<and> p \<le> 3000000 \<longrightarrow>
      select_settings p = \<lparr>blurRadius = 0.35, denoiseStrength = 0.12, sharpenSigma = 0.6,
                           saturationReduction = 0.9\<rparr>"
    by (simp add: select_settings_def)
  moreover have "500000 < p \<and> p \<le> 1000000 \<longrightarrow>
      select_settings p = \<lparr>blurRadius = 0.3, denoiseStrength = 0.1, sharpenSigma = 0.5,
                           saturationReduction = 0.95\<rparr>"
    by (simp add: select_settings_def)
  moreover have "p \<le> 500000 \<longrightarrow>
      select_settings p = \<lparr>blurRadius = 0.3, denoiseStrength = 0.1, sharpenSigma = 0.5,
                           saturationReduction = 1.0\<rparr>"
    by (simp add: select_settings_def)
  ultimately show ?thesis
    using calls_applyArtifactReduction [of s p] by blast
qed

theorem artifact_tier_table_witness:
  "saturationReduction (select_settings 4000000) = 0.85
   \<and> blurRadius (select_settings 4000000) = 0.4
   \<and> sharpenSigma (select_settings 4000000) = 0.8
   \<and> saturationReduction (select_settings 2000000) = 0.9
   \<and> saturationReduction (select_settings 800000) = 0.95
   \<and> blurRadius (select_settings 800000) = 0.3
   \<and> sharpenSigma (select_settings 800000) = 0.5
   \<and> saturationReduction (select_settings 300000) = 1.0
   \<and> calls (applyArtifactReduction (sharp False) 300000) =
       [Modulate 1.0, Blur 0.3, Sharpen [0.5], Gamma]"
  using artifact_tier_table [of 4000000 "sharp False"]
    artifact_tier_table [of 2000000 "sharp False"]
    artifact_tier_table [of 800000 "sharp False"]
    artifact_tier_table [of 300000 "sharp False"]
  by (simp add: sharp_def)

text \<open>
  C6. The AVIF tuning follows the larger of width and height: above 2000 it is 4 by 4
  tiles, quantizers 30 to 50, effort 3; above 1000 it is 2 by 2 tiles, quantizers 28 to 48,
  effort 4; otherwise 1 by 1 tiles, quantizers 26 to 48, effort 4.
\<close>

theorem avif_tier_table:
  "optimizeAvifParams w h =
     (if 2000 < max w h
      then \<lparr>tileRows = 4, tileCols = 4, minQuantizer = 30, maxQuantizer = 50, effort = 3\<rparr>
      else if 1000 < max w h
      then \<lparr>tileRows = 2, tileCols = 2, minQuantizer = 28, maxQuantizer = 48, effort = 4\<rparr>
      else \<lparr>tileRows = 1, tileCols = 1, minQuantizer = 26, maxQuantizer = 48, effort = 4\<rparr>)"
  by (simp add: optimizeAvifParams_def less_max_iff_disj)

theorem avif_tier_table_witness:
  "optimizeAvifParams 5000 3000
     = \<lparr>tileRows = 4, tileCols = 4, minQuantizer = 30, maxQuantizer = 50, effort = 3\<rparr>
   \<and> optimizeAvifParams 1500 900
     = \<lparr>tileRows = 2, tileCols = 2, minQuantizer = 28, maxQuantizer = 48, effort = 4\<rparr>
   \<and> optimizeAvifParams 640 480
     = \<lparr>tileRows = 1, tileCols = 1, minQuantizer = 26, maxQuantizer = 48, effort = 4\<rparr>"
  using avif_tier_table [of 5000 3000] avif_tier_table [of 1500 900]
    avif_tier_table [of 640 480]
  by simp

subsection \<open>The fixed sharpen pass\<close>

text \<open>
  C7. The pipeline of the first attempt holds the call \<^verbatim>\<open>sharpen(1.0, 1.0, 0.5)\<close> exactly when
  the image is static and has more than 500,000 pixels, whatever the output format;
  animated images and images of 500,000 pixels or fewer never get it.
\<close>

theorem fixed_sharpen_iff:
  "Sharpen [1.0, 1.0, 0.5] \<in> set (calls (initial_pipeline req m))
     \<longleftrightarrow> \<not> isAnimated m \<and> 500000 < width m * height m"
  by (simp add: initial_pipeline_def Let_def calls_call pixelCount_def
        calls_applyArtifactReduction sharp_def sharpenParams_def)

theorem fixed_sharpen_iff_witness:
  "Sharpen [1.0, 1.0, 0.5] \<in> set (calls (initial_pipeline
      \<lparr>webp = False, grayscale = False, quality = 75, originSize = None,
       url = ''http://example.com/p.jpg''\<rparr>
      \<lparr>width = 1000, height = 800, pages = None\<rparr>))
   \<and> Sharpen [1.0, 1.0, 0.5] \<notin> set (calls (initial_pipeline
      \<lparr>webp = False, grayscale = False, quality = 75, originSize = None,
       url = ''http://example.com/p.jpg''\<rparr>
      \<lparr>width = 1000, height = 500, pages = None\<rparr>))
   \<and> Sharpen [1.0, 1.0, 0.5] \<notin> set (calls (initial_pipeline
      \<lparr>webp = True, grayscale = False, quality = 75, originSize = None,
       url = ''http://example.com/p.gif''\<rparr>
      \<lparr>width = 1000, height = 800, pages = Some 3\<rparr>))"
  using
    fixed_sharpen_iff [of
      "\<lparr>webp = False, grayscale = False, quality = 75, originSize = None,
        url = ''http://example.com/p.jpg''\<rparr>"
      "\<lparr>width = 1000, height = 800, pages = None\<rparr>"]
    fixed_sharpen_iff [of
      "\<lparr>webp = False, grayscale = False, quality = 75, originSize = None,
        url = ''http://example.com/p.jpg''\<rparr>"
      "\<lparr>width = 1000, height = 500, pages = None\<rparr>"]
    fixed_sharpen_iff [of
      "\<lparr>webp = True, grayscale = False, quality = 75, originSize = None,
        url = ''http://example.com/p.gif''\<rparr>"
      "\<lparr>width = 1000, height = 800, pages = Some 3\<rparr>"]
  by (simp add: isAnimated_def)


subsection \<open>The filter chain\<close>

text \<open>
  C10. The artifact-reduction stage appends exactly four calls, saturation modulation, blur,
  sharpen and gamma, in this order. The tier's \<^verbatim>\<open>denoiseStrength\<close> reaches none of them: two
  settings that agree on blur radius, sharpen sigma and saturation give the same pipeline,
  whatever their denoise strengths.
\<close>

theorem denoise_unused:
  "(blurRadius t = blurRadius t' \<and> sharpenSigma t = sharpenSigma t'
      \<and> saturationReduction t = saturationReduction t'
      \<longrightarrow> filter_chain t s = filter_chain t' s)
   \<and> calls (filter_chain t s) =
       calls s @ [Modulate (saturationReduction t), Blur (blurRadius t),
                  Sharpen [sharpenSigma t], Gamma]
   \<and> calls (applyArtifactReduction s p) =
       calls s @ [Modulate (saturationReduction (select_settings p)),
                  Blur (blurRadius (select_settings p)),
                  Sharpen [sharpenSigma (select_settings p)], Gamma]"
  by (simp add: filter_chain_def applyArtifactReduction_def calls_call)

theorem denoise_unused_witness:
  "filter_chain \<lparr>blurRadius = 0.4, denoiseStrength = 0.15, sharpenSigma = 0.8,
                 saturationReduction = 0.85\<rparr> (sharp False)
     = filter_chain \<lparr>blurRadius = 0.4, denoiseStrength = 0.9, sharpenSigma = 0.8,
                     saturationReduction = 0.85\<rparr> (sharp False)
   \<and> calls (filter_chain \<lparr>blurRadius = 0.4, denoiseStrength = 0.15, sharpenSigma = 0.8,
                 saturationReduction = 0.85\<rparr> (sharp False))
     = [Modulate 0.85, Blur 0.4, Sharpen [0.8], Gamma]"
  using denoise_unused [of
      "\<lparr>blurRadius = 0.4, denoiseStrength = 0.15, sharpenSigma = 0.8,
        saturationReduction = 0.85\<rparr>"
      "\<lparr>blurRadius = 0.4, denoiseStrength = 0.9, sharpenSigma = 0.8,
        saturationReduction = 0.85\<rparr>" "sharp False" 0]
  by (simp add: sharp_def filter_chain_def call_def)

subsection \<open>Bytes saved\<close>

lemma or_zero_cases: "or_zero x = (case x of None \<Rightarrow> 0 | Some n \<Rightarrow> n)"
  by (simp add: or_zero_def split: option.splits)

lemma sendImage_succeeds:
  "new_URL_pathname env u = Inr p \<Longrightarrow> \<not> headersSent env \<Longrightarrow>
   \<exists>r. sendImage env data imgFormat u origSize compressedSize = Inr r
       \<and> x_bytes_saved r = max (or_zero origSize - compressedSize) 0
       \<and> x_original_size r = or_zero origSize"
  by (simp add: sendImage_def Let_def)

lemma sendImage_bytes_saved:
  "sendImage env data imgFormat u origSize compressedSize = Inr r \<Longrightarrow>
   x_bytes_saved r = max (or_zero origSize - compressedSize) 0"
  by (auto simp: sendImage_def Let_def split: sum.splits if_splits)

text \<open>
  C8. When the URL parses and the headers are still unsent, \<^verbatim>\<open>sendImage\<close> writes a response,
  and its bytes-saved header is the larger of origin size minus encoded size and 0, an
  absent origin size counting as 0: a positive saving is emitted as it is, a negative one
  as 0. Every response that \<^verbatim>\<open>sendImage\<close> writes carries this value, which is never
  negative. With origin size 1000 and encoded size 1500 it is 0.
\<close>

theorem bytes_saved_clamped:
  "(new_URL_pathname env u = Inr p \<and> \<not> headersSent env \<longrightarrow>
      (\<exists>r. sendImage env data imgFormat u origSize compressedSize = Inr r
         \<and> x_bytes_saved r
             = max ((case origSize of None \<Rightarrow> 0 | Some n \<Rightarrow> n) - compressedSize) 0))
   \<and> (sendImage env data imgFormat u origSize compressedSize = Inr r' \<longrightarrow>
      x_bytes_saved r'
        = max ((case origSize of None \<Rightarrow> 0 | Some n \<Rightarrow> n) - compressedSize) 0
      \<and> 0 \<le> x_bytes_saved r')"
proof -
  have total: "\<exists>r. sendImage env data imgFormat u origSize compressedSize = Inr r
         \<and> x_bytes_saved r
             = max ((case origSize of None \<Rightarrow> 0 | Some n \<Rightarrow> n) - compressedSize) 0"
    if "new_URL_pathname env u = Inr p" and "\<not> headersSent env"
    using sendImage_succeeds [OF that, of data imgFormat origSize compressedSize]
    by (auto simp: or_zero_cases)
  have partial: "x_bytes_saved r'
        = max ((case origSize of None \<Rightarrow> 0 | Some n \<Rightarrow> n) - compressedSize) 0
      \<and> 0 \<le> x_bytes_saved r'"
    if "sendImage env data imgFormat u origSize compressedSize = Inr r'"
    using sendImage_bytes_saved [OF that] by (simp add: or_zero_cases)
  from total partial show ?thesis by blast
qed

theorem bytes_saved_clamped_witness:
  "(\<exists>r. sendImage working_env [] JPEG ''http://example.com/img/photo.png'' (Some 5000) 1500
          = Inr r \<and> x_bytes_saved r = 3500)
   \<and> (\<exists>r. sendImage working_env [] JPEG ''http://example.com/img/photo.png'' (Some 1000) 1500
          = Inr r \<and> x_bytes_saved r = 0)
   \<and> (\<exists>r. sendImage working_env [] JPEG ''http://example.com/img/photo.png'' None 1500
          = Inr r \<and> x_bytes_saved r = 0)
   \<and> sendImage working_env [] JPEG ''http://example.com/img/photo.png'' (Some 5000) 1500
     = Inr \<lparr>content_type = ''image/jpeg'', content_length = 0,
            content_disposition = ''inline; filename=\"photo.png.jpeg\"'',
            x_content_type_options = ''nosniff'', x_original_size = 5000,
            x_bytes_saved = 3500, status = 200, body = []\<rparr>"
proof -
  let ?u = "''http://example.com/img/photo.png''"
  have h1: "new_URL_pathname working_env ?u = Inr ''/img/photo.png''"
    and h2: "\<not> headersSent working_env"
    by (simp_all add: working_env_def)
  have a: "\<exists>r. sendImage working_env [] JPEG ?u (Some 5000) 1500 = Inr r
             \<and> x_bytes_saved r = 3500"
    using bytes_saved_clamped [of working_env ?u "''/img/photo.png''" "[]" JPEG
        "Some 5000" 1500] h1 h2
    by auto
  have b: "\<exists>r. sendImage working_env [] JPEG ?u (Some 1000) 1500 = Inr r
             \<and> x_bytes_saved r = 0"
    using bytes_saved_clamped [of working_env ?u "''/img/photo.png''" "[]" JPEG
        "Some 1000" 1500] h1 h2
    by auto
  have c: "\<exists>r. sendImage working_env [] JPEG ?u None 1500 = Inr r
             \<and> x_bytes_saved r = 0"
    using bytes_saved_clamped [of working_env ?u "''/img/photo.png''" "[]" JPEG
        None 1500] h1 h2
    by auto
  have run: "sendImage working_env [] JPEG ?u (Some 5000) 1500
     = Inr \<lparr>content_type = ''image/jpeg'', content_length = 0,
            content_disposition = ''inline; filename=\"photo.png.jpeg\"'',
            x_content_type_options = ''nosniff'', x_original_size = 5000,
            x_bytes_saved = 3500, status = 200, body = []\<rparr>"
    by (simp add: sendImage_def working_env_def last_segment_def or_zero_def)
  from a b c run show ?thesis by blast
qed

subsection \<open>Determinism of planning\<close>

text \<open>
  C9. The plan is a function of the decoded width, height and page count and of the
  request's format flag, grayscale flag and quality, and of nothing else: two invocations
  that agree on these build the same first pipeline and the same fallback pipeline, so
  identical image information and identical requests give identical plans. The two tier
  functions take only their arguments.
\<close>

theorem planning_deterministic:
  assumes "width m = width m'" and "height m = height m'" and "pages m = pages m'"
    and "webp req = webp req'" and "grayscale req = grayscale req'"
    and "quality req = quality req'"
  shows "initial_pipeline req m = initial_pipeline req' m'
         \<and> fallback_pipeline req m (initial_pipeline req m)
             = fallback_pipeline req' m' (initial_pipeline req' m')
         \<and> optimizeAvifParams (width m) (height m) = optimizeAvifParams (width m') (height m')
         \<and> select_settings (pixelCount m) = select_settings (pixelCount m')"
proof -
  have anim: "isAnimated m = isAnimated m'"
    using assms(3) by (simp add: isAnimated_def)
  have pc: "pixelCount m = pixelCount m'"
    using assms(1,2) by (simp add: pixelCount_def)
  have fmt: "initial_format req m = initial_format req' m'"
    using anim assms(4) by (simp add: initial_format_def)
  have first: "initial_pipeline req m = initial_pipeline req' m'"
    by (simp only: initial_pipeline_def anim pc fmt assms(1,2,5,6))
  have second: "fallback_pipeline req m (initial_pipeline req m)
             = fallback_pipeline req' m' (initial_pipeline req' m')"
    using first anim assms(6) by (simp add: fallback_pipeline_def fallback_format_def)
  show ?thesis
    using first second pc assms(1,2) by simp
qed

theorem planning_deterministic_witness:
  "initial_pipeline
      \<lparr>webp = True, grayscale = True, quality = 60, originSize = Some 90000,
       url = ''http://example.com/one.png''\<rparr>
      \<lparr>width = 1500, height = 900, pages = None\<rparr>
     = initial_pipeline
      \<lparr>webp = True, grayscale = True, quality = 60, originSize = None,
       url = ''http://example.com/two.png''\<rparr>
      \<lparr>width = 1500, height = 900, pages = None\<rparr>"
proof -
  let ?m = "\<lparr>width = 1500, height = 900, pages = None\<rparr>"
  let ?r = "\<lparr>webp = True, grayscale = True, quality = 60, originSize = Some 90000,
       url = ''http://example.com/one.png''\<rparr>"
  let ?r' = "\<lparr>webp = True, grayscale = True, quality = 60, originSize = None,
       url = ''http://example.com/two.png''\<rparr>"
  have "width ?m = width ?m" and "height ?m = height ?m" and "pages ?m = pages ?m"
    and "webp ?r = webp ?r'" and "grayscale ?r = grayscale ?r'"
    and "quality ?r = quality ?r'"
    by simp_all
  from planning_deterministic [OF this] show ?thesis by simp
qed


subsection \<open>The retry\<close>

lemma on_error_attempts:
  "attempts (on_error env req m s msg) =
     (if str_includes msg ''too large for the HEIF format''
      then [s, fallback_pipeline req m s] else [s])"
  by (simp add: on_error_def Let_def split: sum.splits prod.splits)

lemma on_error_fallback_fails:
  "str_includes msg ''too large for the HEIF format'' \<Longrightarrow>
   toBuffer env (fallback_pipeline req m s) = Inl e \<Longrightarrow>
   outcome (on_error env req m s msg) = Redirected"
  by (simp add: on_error_def Let_def)

lemma on_error_other:
  "\<not> str_includes msg ''too large for the HEIF format'' \<Longrightarrow>
   outcome (on_error env req m s msg) = Redirected"
  by (simp add: on_error_def)

lemma compress_first_fails:
  "metadata_result env = Inr m \<Longrightarrow> toBuffer env (initial_pipeline req m) = Inl msg \<Longrightarrow>
   compress env req = on_error env req m (initial_pipeline req m) msg"
  by (simp add: compress_def Let_def)

lemma compress_attempts_le2: "length (attempts (compress env req)) \<le> 2"
  by (simp add: compress_def Let_def on_error_attempts split: sum.splits prod.splits)

text \<open>
  C2. A run makes at most two encode attempts. When the first attempt fails with the
  capacity message, exactly one more attempt is made, on the fallback pipeline; when that
  one fails too, with whatever message, the run ends in the redirect. When the first
  attempt fails with any other message, the run ends in the redirect after that single
  attempt.
\<close>

theorem at_most_two_attempts:
  "length (attempts (compress env req)) \<le> 2
   \<and> (metadata_result env = Inr m \<and> toBuffer env (initial_pipeline req m) = Inl msg
        \<and> str_includes msg ''too large for the HEIF format''
      \<longrightarrow> attempts (compress env req)
            = [initial_pipeline req m, fallback_pipeline req m (initial_pipeline req m)])
   \<and> (metadata_result env = Inr m \<and> toBuffer env (initial_pipeline req m) = Inl msg
        \<and> str_includes msg ''too large for the HEIF format''
        \<and> toBuffer env (fallback_pipeline req m (initial_pipeline req m)) = Inl e
      \<longrightarrow> outcome (compress env req) = Redirected)
   \<and> (metadata_result env = Inr m \<and> toBuffer env (initial_pipeline req m) = Inl msg
        \<and> \<not> str_includes msg ''too large for the HEIF format''
      \<longrightarrow> attempts (compress env req) = [initial_pipeline req m]
          \<and> outcome (compress env req) = Redirected)"
proof -
  have bound: "length (attempts (compress env req)) \<le> 2"
    by (rule compress_attempts_le2)
  have retry: "attempts (compress env req)
            = [initial_pipeline req m, fallback_pipeline req m (initial_pipeline req m)]"
    if "metadata_result env = Inr m" and "toBuffer env (initial_pipeline req m) = Inl msg"
      and "str_includes msg ''too large for the HEIF format''"
    using that by (simp add: compress_first_fails on_error_attempts)
  have twice: "outcome (compress env req) = Redirected"
    if "metadata_result env = Inr m" and "toBuffer env (initial_pipeline req m) = Inl msg"
      and "str_includes msg ''too large for the HEIF format''"
      and "toBuffer env (fallback_pipeline req m (initial_pipeline req m)) = Inl e"
    using that by (simp add: compress_first_fails on_error_fallback_fails)
  have other: "attempts (compress env req) = [initial_pipeline req m]
          \<and> outcome (compress env req) = Redirected"
    if "metadata_result env = Inr m" and "toBuffer env (initial_pipeline req m) = Inl msg"
      and "\<not> str_includes msg ''too large for the HEIF format''"
    using that by (simp add: compress_first_fails on_error_attempts on_error_other)
  from bound retry twice other show ?thesis by blast
qed

theorem at_most_two_attempts_witness:
  "length (attempts (compress
      (env_with \<lparr>width = 3000, height = 2000, pages = None\<rparr> always_too_large)
      \<lparr>webp = True, grayscale = False, quality = 80, originSize = Some 900000,
       url = ''http://example.com/img/photo.png''\<rparr>)) = 2
   \<and> outcome (compress
      (env_with \<lparr>width = 3000, height = 2000, pages = None\<rparr> always_too_large)
      \<lparr>webp = True, grayscale = False, quality = 80, originSize = Some 900000,
       url = ''http://example.com/img/photo.png''\<rparr>) = Redirected
   \<and> length (attempts (compress
      (env_with \<lparr>width = 3000, height = 2000, pages = None\<rparr> always_broken)
      \<lparr>webp = True, grayscale = False, quality = 80, originSize = Some 900000,
       url = ''http://example.com/img/photo.png''\<rparr>)) = 1
   \<and> outcome (compress
      (env_with \<lparr>width = 3000, height = 2000, pages = None\<rparr> always_broken)
      \<lparr>webp = True, grayscale = False, quality = 80, originSize = Some 900000,
       url = ''http://example.com/img/photo.png''\<rparr>) = Redirected"
proof -
  let ?m = "\<lparr>width = 3000, height = 2000, pages = None\<rparr>"
  let ?r = "\<lparr>webp = True, grayscale = False, quality = 80, originSize = Some 900000,
       url = ''http://example.com/img/photo.png''\<rparr>"
  let ?big = "''Processed image is too large for the HEIF format''"
  let ?bad = "''Input buffer contains unsupported image format''"
  have m1: "metadata_result (env_with ?m always_too_large) = Inr ?m"
    and m2: "metadata_result (env_with ?m always_broken) = Inr ?m"
    by (simp_all add: env_with_def)
  have f1: "toBuffer (env_with ?m always_too_large) (initial_pipeline ?r ?m) = Inl ?big"
    and f2: "toBuffer (env_with ?m always_too_large)
               (fallback_pipeline ?r ?m (initial_pipeline ?r ?m)) = Inl ?big"
    by (simp_all add: env_with_def always_too_large_def)
  have f3: "toBuffer (env_with ?m always_broken) (initial_pipeline ?r ?m) = Inl ?bad"
    by (simp add: env_with_def always_broken_def)
  have c1: "str_includes ?big ''too large for the HEIF format''"
    by simp
  have c2: "\<not> str_includes ?bad ''too large for the HEIF format''"
    by simp
  show ?thesis
    using at_most_two_attempts [of "env_with ?m always_too_large" ?r ?m ?big ?big]
      at_most_two_attempts [of "env_with ?m always_broken" ?r ?m ?bad ?bad]
      m1 m2 f1 f2 f3 c1 c2
    by simp
qed


subsection \<open>The fallback plan\<close>

lemma calls_fallback_pipeline:
  "calls (fallback_pipeline req m s) =
     calls s @ [ToFormat (if isAnimated m then WEBP else JPEG)
                  \<lparr>opt_quality = quality req, opt_alphaQuality = None,
                   opt_smartSubsample = None, opt_chromaSubsampling = None,
                   opt_tileRows = None, opt_tileCols = None, opt_minQuantizer = None,
                   opt_maxQuantizer = None, opt_effort = None, opt_loop = None\<rparr>]"
  by (simp add: fallback_pipeline_def fallback_format_def quality_only_def calls_call)

lemma static_filters_in_initial:
  "\<not> isAnimated m \<Longrightarrow>
   set [Modulate (saturationReduction (select_settings (pixelCount m))),
        Blur (blurRadius (select_settings (pixelCount m))),
        Sharpen [sharpenSigma (select_settings (pixelCount m))], Gamma]
     \<subseteq> set (calls (initial_pipeline req m))"
  by (cases "webp req")
     (simp_all add: initial_pipeline_def initial_format_def Let_def calls_call
        calls_applyArtifactReduction)

lemma static_sharpen_in_initial:
  "\<not> isAnimated m \<Longrightarrow> 500000 < pixelCount m \<Longrightarrow>
   Sharpen [1.0, 1.0, 0.5] \<in> set (calls (initial_pipeline req m))"
  by (simp add: initial_pipeline_def Let_def calls_call sharpenParams_def)

text \<open>
  C1, as the code has it. When the first attempt fails with the capacity message, the
  second attempt is made on the first attempt's pipeline with one more \<^verbatim>\<open>toFormat\<close> call:
  WEBP if the image is animated, else JPEG, with an options object that holds the quality
  and nothing else (no AVIF tuning, no alpha quality, no subsampling, no loop). This call
  decides the format and options of the second encode. Every earlier call stays: for a
  static image the four artifact-reduction filters, and above 500,000 pixels the fixed
  sharpen pass, are part of the second encode too.
\<close>

theorem fallback_plan:
  assumes "metadata_result env = Inr m"
    and "toBuffer env (initial_pipeline req m) = Inl msg"
    and "str_includes msg ''too large for the HEIF format''"
  shows "attempts (compress env req)
           = [initial_pipeline req m, fallback_pipeline req m (initial_pipeline req m)]
   \<and> calls (fallback_pipeline req m (initial_pipeline req m))
       = calls (initial_pipeline req m)
         @ [ToFormat (if isAnimated m then WEBP else JPEG)
              \<lparr>opt_quality = quality req, opt_alphaQuality = None,
               opt_smartSubsample = None, opt_chromaSubsampling = None,
               opt_tileRows = None, opt_tileCols = None, opt_minQuantizer = None,
               opt_maxQuantizer = None, opt_effort = None, opt_loop = None\<rparr>]
   \<and> output_config (calls (fallback_pipeline req m (initial_pipeline req m)))
       = Some (if isAnimated m then WEBP else JPEG,
               \<lparr>opt_quality = quality req, opt_alphaQuality = None,
                opt_smartSubsample = None, opt_chromaSubsampling = None,
                opt_tileRows = None, opt_tileCols = None, opt_minQuantizer = None,
                opt_maxQuantizer = None, opt_effort = None, opt_loop = None\<rparr>)
   \<and> (\<not> isAnimated m \<longrightarrow>
        set [Modulate (saturationReduction (select_settings (pixelCount m))),
             Blur (blurRadius (select_settings (pixelCount m))),
             Sharpen [sharpenSigma (select_settings (pixelCount m))], Gamma]
          \<subseteq> set (calls (fallback_pipeline req m (initial_pipeline req m))))
   \<and> (\<not> isAnimated m \<and> 500000 < pixelCount m \<longrightarrow>
        Sharpen [1.0, 1.0, 0.5]
          \<in> set (calls (fallback_pipeline req m (initial_pipeline req m))))"
proof -
  let ?s = "initial_pipeline req m"
  let ?fb = "fallback_pipeline req m ?s"
  have two: "attempts (compress env req) = [?s, ?fb]"
    using assms by (simp add: compress_first_fails on_error_attempts)
  have app: "calls ?fb = calls ?s
         @ [ToFormat (if isAnimated m then WEBP else JPEG)
              \<lparr>opt_quality = quality req, opt_alphaQuality = None,
               opt_smartSubsample = None, opt_chromaSubsampling = None,
               opt_tileRows = None, opt_tileCols = None, opt_minQuantizer = None,
               opt_maxQuantizer = None, opt_effort = None, opt_loop = None\<rparr>]"
    by (rule calls_fallback_pipeline)
  have cfg: "output_config (calls ?fb)
       = Some (if isAnimated m then WEBP else JPEG,
               \<lparr>opt_quality = quality req, opt_alphaQuality = None,
                opt_smartSubsample = None, opt_chromaSubsampling = None,
                opt_tileRows = None, opt_tileCols = None, opt_minQuantizer = None,
                opt_maxQuantizer = None, opt_effort = None, opt_loop = None\<rparr>)"
    by (simp only: app output_config_snoc sharp_call.case)
  have sub: "set (calls ?s) \<subseteq> set (calls ?fb)"
    by (simp only: app set_append) blast
  have filters: "set [Modulate (saturationReduction (select_settings (pixelCount m))),
             Blur (blurRadius (select_settings (pixelCount m))),
             Sharpen [sharpenSigma (select_settings (pixelCount m))], Gamma]
          \<subseteq> set (calls ?fb)" if "\<not> isAnimated m"
    using static_filters_in_initial [OF that, of req] sub by (rule subset_trans)
  have sharpen: "Sharpen [1.0, 1.0, 0.5] \<in> set (calls ?fb)"
    if "\<not> isAnimated m" and "500000 < pixelCount m"
    using static_sharpen_in_initial [OF that, of req] sub by blast
  from two app cfg filters sharpen show ?thesis by blast
qed

theorem fallback_plan_witness:
  "attempts (compress
      (env_with \<lparr>width = 1500, height = 1200, pages = None\<rparr> rejects_heif)
      \<lparr>webp = True, grayscale = False, quality = 65, originSize = Some 700000,
       url = ''http://example.com/img/photo.png''\<rparr>)
     = [initial_pipeline
          \<lparr>webp = True, grayscale = False, quality = 65, originSize = Some 700000,
           url = ''http://example.com/img/photo.png''\<rparr>
          \<lparr>width = 1500, height = 1200, pages = None\<rparr>,
        fallback_pipeline
          \<lparr>webp = True, grayscale = False, quality = 65, originSize = Some 700000,
           url = ''http://example.com/img/photo.png''\<rparr>
          \<lparr>width = 1500, height = 1200, pages = None\<rparr>
          (initial_pipeline
            \<lparr>webp = True, grayscale = False, quality = 65, originSize = Some 700000,
             url = ''http://example.com/img/photo.png''\<rparr>
            \<lparr>width = 1500, height = 1200, pages = None\<rparr>)]
   \<and> output_config (calls (fallback_pipeline
          \<lparr>webp = True, grayscale = False, quality = 65, originSize = Some 700000,
           url = ''http://example.com/img/photo.png''\<rparr>
          \<lparr>width = 1500, height = 1200, pages = None\<rparr>
          (initial_pipeline
            \<lparr>webp = True, grayscale = False, quality = 65, originSize = Some 700000,
             url = ''http://example.com/img/photo.png''\<rparr>
            \<lparr>width = 1500, height = 1200, pages = None\<rparr>)))
     = Some (JPEG, \<lparr>opt_quality = 65, opt_alphaQuality = None,
                opt_smartSubsample = None, opt_chromaSubsampling = None,
                opt_tileRows = None, opt_tileCols = None, opt_minQuantizer = None,
                opt_maxQuantizer = None, opt_effort = None, opt_loop = None\<rparr>)
   \<and> Sharpen [1.0, 1.0, 0.5] \<in> set (calls (fallback_pipeline
          \<lparr>webp = True, grayscale = False, quality = 65, originSize = Some 700000,
           url = ''http://example.com/img/photo.png''\<rparr>
          \<lparr>width = 1500, height = 1200, pages = None\<rparr>
          (initial_pipeline
            \<lparr>webp = True, grayscale = False, quality = 65, originSize = Some 700000,
             url = ''http://example.com/img/photo.png''\<rparr>
            \<lparr>width = 1500, height = 1200, pages = None\<rparr>)))"
proof -
  let ?m = "\<lparr>width = 1500, height = 1200, pages = None\<rparr>"
  let ?r = "\<lparr>webp = True, grayscale = False, quality = 65, originSize = Some 700000,
       url = ''http://example.com/img/photo.png''\<rparr>"
  let ?big = "''Processed image is too large for the HEIF format''"
  have h1: "metadata_result (env_with ?m rejects_heif) = Inr ?m"
    by (simp add: env_with_def)
  have h2: "toBuffer (env_with ?m rejects_heif) (initial_pipeline ?r ?m) = Inl ?big"
    by (simp add: env_with_def rejects_heif_def initial_pipeline_def initial_format_def
          isAnimated_def Let_def calls_call output_config_snoc)
  have h3: "str_includes ?big ''too large for the HEIF format''"
    by simp
  have st: "\<not> isAnimated ?m" and px: "500000 < pixelCount ?m"
    by (simp_all add: isAnimated_def pixelCount_def)
  note plan = fallback_plan [OF h1 h2 h3]
  have a: "attempts (compress (env_with ?m rejects_heif) ?r)
             = [initial_pipeline ?r ?m, fallback_pipeline ?r ?m (initial_pipeline ?r ?m)]"
    using plan by (rule conjunct1)
  have b: "output_config (calls (fallback_pipeline ?r ?m (initial_pipeline ?r ?m)))
             = Some (if isAnimated ?m then WEBP else JPEG,
                 \<lparr>opt_quality = quality ?r, opt_alphaQuality = None,
                  opt_smartSubsample = None, opt_chromaSubsampling = None,
                  opt_tileRows = None, opt_tileCols = None, opt_minQuantizer = None,
                  opt_maxQuantizer = None, opt_effort = None, opt_loop = None\<rparr>)"
    using plan by blast
  have c: "Sharpen [1.0, 1.0, 0.5]
             \<in> set (calls (fallback_pipeline ?r ?m (initial_pipeline ?r ?m)))"
    using plan st px by blast
  from b st have b': "output_config (calls (fallback_pipeline ?r ?m (initial_pipeline ?r ?m)))
             = Some (JPEG,
                 \<lparr>opt_quality = 65, opt_alphaQuality = None,
                  opt_smartSubsample = None, opt_chromaSubsampling = None,
                  opt_tileRows = None, opt_tileCols = None, opt_minQuantizer = None,
                  opt_maxQuantizer = None, opt_effort = None, opt_loop = None\<rparr>)"
    by simp
  from a b' c show ?thesis by blast
qed

text \<open>
  The claim as the specification words it fails: on a static image of 4000 by 3000 pixels
  requested in the modern format, with an encoder that refuses AVIF with the capacity
  message, the second encode still runs the artifact-reduction filters and the fixed
  sharpen pass before the JPEG output.
\<close>

theorem fallback_drops_filters_counterexample:
  "length (attempts (compress
      (env_with \<lparr>width = 4000, height = 3000, pages = None\<rparr> rejects_heif)
      \<lparr>webp = True, grayscale = False, quality = 80, originSize = Some 900000,
       url = ''http://example.com/img/photo.png''\<rparr>)) = 2
   \<and> calls (attempts (compress
      (env_with \<lparr>width = 4000, height = 3000, pages = None\<rparr> rejects_heif)
      \<lparr>webp = True, grayscale = False, quality = 80, originSize = Some 900000,
       url = ''http://example.com/img/photo.png''\<rparr>) ! 1)
     = [Modulate 0.85, Blur 0.4, Sharpen [0.8], Gamma, Sharpen [1.0, 1.0, 0.5],
        ToFormat AVIF
          \<lparr>opt_quality = 80, opt_alphaQuality = Some 80, opt_smartSubsample = Some True,
           opt_chromaSubsampling = Some ''4:2:0'', opt_tileRows = Some 4,
           opt_tileCols = Some 4, opt_minQuantizer = Some 30, opt_maxQuantizer = Some 50,
           opt_effort = Some 3, opt_loop = None\<rparr>,
        ToFormat JPEG
          \<lparr>opt_quality = 80, opt_alphaQuality = None, opt_smartSubsample = None,
           opt_chromaSubsampling = None, opt_tileRows = None, opt_tileCols = None,
           opt_minQuantizer = None, opt_maxQuantizer = None, opt_effort = None,
           opt_loop = None\<rparr>]"
  by (simp add: compress_def on_error_def env_with_def rejects_heif_def
        initial_pipeline_def initial_format_def fallback_pipeline_def fallback_format_def
        quality_only_def isAnimated_def pixelCount_def optimizeAvifParams_def
        applyArtifactReduction_def filter_chain_def select_settings_def
        sharpenParams_def MAX_HEIF_DIMENSION_def sharp_def call_def sendImage_def
        last_segment_def or_zero_def Let_def)


subsection \<open>The resize clamp\<close>

lemma resizeTarget_initial:
  "resizeTarget (calls (initial_pipeline req m)) =
     (if initial_format req m = AVIF \<and> (16384 < width m \<or> 16384 < height m)
      then Some (min (width m) 16384, min (height m) 16384, Inside) else None)"
  by (simp add: initial_pipeline_def Let_def calls_call resizeTarget_snoc
        calls_applyArtifactReduction MAX_HEIF_DIMENSION_def sharp_def)

lemma resizeTarget_fallback:
  "resizeTarget (calls (fallback_pipeline req m s)) = resizeTarget (calls s)"
  by (simp add: fallback_pipeline_def calls_call resizeTarget_snoc)

text \<open>
  C4, as the code has it. The pipeline of the first attempt holds a resize exactly when its
  output format is AVIF and the width or the height exceeds 16384; the resize is then
  given the box of min(width, 16384) by min(height, 16384) with fit mode inside, and a first
  attempt in JPEG or WEBP holds none. For 20000 by 10000 in the modern format the box is
  16384 by 10000, which the fit mode turns into 16384 by 8192. The fallback pipeline does
  not decide again: it holds the resize of the pipeline it is made from, or none if that
  had none.
\<close>

theorem resize_clamp_rule:
  "(resizeTarget (calls (initial_pipeline req m)) \<noteq> None
      \<longleftrightarrow> initial_format req m = AVIF \<and> (16384 < width m \<or> 16384 < height m))
   \<and> (initial_format req m = AVIF \<and> (16384 < width m \<or> 16384 < height m)
      \<longrightarrow> resizeTarget (calls (initial_pipeline req m))
            = Some (min (width m) 16384, min (height m) 16384, Inside))
   \<and> (initial_format req m = JPEG \<or> initial_format req m = WEBP
      \<longrightarrow> resizeTarget (calls (initial_pipeline req m)) = None)
   \<and> (webp req
      \<longrightarrow> resizeTarget (calls (initial_pipeline req
                \<lparr>width = 20000, height = 10000, pages = None\<rparr>))
            = Some (16384, 10000, Inside))
   \<and> fit_inside (20000, 10000) (16384, 10000) = (16384, 8192)
   \<and> resizeTarget (calls (fallback_pipeline req m s)) = resizeTarget (calls s)"
proof -
  have iff: "resizeTarget (calls (initial_pipeline req m)) \<noteq> None
      \<longleftrightarrow> initial_format req m = AVIF \<and> (16384 < width m \<or> 16384 < height m)"
    by (simp add: resizeTarget_initial)
  have box: "resizeTarget (calls (initial_pipeline req m))
            = Some (min (width m) 16384, min (height m) 16384, Inside)"
    if "initial_format req m = AVIF \<and> (16384 < width m \<or> 16384 < height m)"
    using that by (simp add: resizeTarget_initial)
  have none: "resizeTarget (calls (initial_pipeline req m)) = None"
    if "initial_format req m = JPEG \<or> initial_format req m = WEBP"
    using that by (auto simp: resizeTarget_initial)
  have ex: "resizeTarget (calls (initial_pipeline req
                \<lparr>width = 20000, height = 10000, pages = None\<rparr>))
            = Some (16384, 10000, Inside)" if "webp req"
    using that by (simp add: resizeTarget_initial initial_format_def isAnimated_def)
  have fit: "fit_inside (20000, 10000) (16384, 10000) = (16384, 8192)"
    by (simp add: fit_inside_def)
  from iff box none ex fit resizeTarget_fallback [of req m s] show ?thesis
    by blast
qed

theorem resize_clamp_rule_witness:
  "resizeTarget (calls (initial_pipeline
      \<lparr>webp = True, grayscale = False, quality = 70, originSize = None,
       url = ''http://example.com/img/photo.png''\<rparr>
      \<lparr>width = 20000, height = 10000, pages = None\<rparr>))
     = Some (16384, 10000, Inside)
   \<and> resizeTarget (calls (initial_pipeline
      \<lparr>webp = False, grayscale = False, quality = 70, originSize = None,
       url = ''http://example.com/img/photo.png''\<rparr>
      \<lparr>width = 20000, height = 10000, pages = None\<rparr>)) = None
   \<and> resizeTarget (calls (initial_pipeline
      \<lparr>webp = True, grayscale = False, quality = 70, originSize = None,
       url = ''http://example.com/img/photo.png''\<rparr>
      \<lparr>width = 16384, height = 9000, pages = None\<rparr>)) = None"
proof -
  let ?big = "\<lparr>width = 20000, height = 10000, pages = None\<rparr>"
  let ?fits = "\<lparr>width = 16384, height = 9000, pages = None\<rparr>"
  let ?modern = "\<lparr>webp = True, grayscale = False, quality = 70, originSize = None,
       url = ''http://example.com/img/photo.png''\<rparr>"
  let ?legacy = "\<lparr>webp = False, grayscale = False, quality = 70, originSize = None,
       url = ''http://example.com/img/photo.png''\<rparr>"
  have f1: "initial_format ?modern ?big = AVIF" and f2: "initial_format ?legacy ?big = JPEG"
    and f3: "initial_format ?modern ?fits = AVIF"
    by (simp_all add: initial_format_def isAnimated_def)
  have a: "resizeTarget (calls (initial_pipeline ?modern ?big)) = Some (16384, 10000, Inside)"
    using resize_clamp_rule [of ?modern ?big "sharp False"] f1 by simp
  have b: "resizeTarget (calls (initial_pipeline ?legacy ?big)) = None"
    using resize_clamp_rule [of ?legacy ?big "sharp False"] f2 by simp
  have c: "resizeTarget (calls (initial_pipeline ?modern ?fits)) = None"
    using resize_clamp_rule [of ?modern ?fits "sharp False"] f3
    by (simp del: not_None_eq)
  from a b c show ?thesis by blast
qed

text \<open>
  The claim as the specification words it fails for the fallback plan: on a static image
  of 20000 by 10000 pixels requested in the modern format, with an encoder that refuses
  AVIF with the capacity message, the second encode has JPEG output and still holds the
  resize to the box of 16384 by 10000.
\<close>

theorem fallback_resize_counterexample:
  "length (attempts (compress
      (env_with \<lparr>width = 20000, height = 10000, pages = None\<rparr> rejects_heif)
      \<lparr>webp = True, grayscale = True, quality = 70, originSize = None,
       url = ''http://example.com/img/photo.png''\<rparr>)) = 2
   \<and> map_option fst (output_config (calls (attempts (compress
      (env_with \<lparr>width = 20000, height = 10000, pages = None\<rparr> rejects_heif)
      \<lparr>webp = True, grayscale = True, quality = 70, originSize = None,
       url = ''http://example.com/img/photo.png''\<rparr>) ! 1))) = Some JPEG
   \<and> resizeTarget (calls (attempts (compress
      (env_with \<lparr>width = 20000, height = 10000, pages = None\<rparr> rejects_heif)
      \<lparr>webp = True, grayscale = True, quality = 70, originSize = None,
       url = ''http://example.com/img/photo.png''\<rparr>) ! 1))
     = Some (16384, 10000, Inside)"
  by (simp add: compress_def on_error_def env_with_def rejects_heif_def
        initial_pipeline_def initial_format_def fallback_pipeline_def fallback_format_def
        quality_only_def isAnimated_def pixelCount_def optimizeAvifParams_def
        applyArtifactReduction_def filter_chain_def select_settings_def
        sharpenParams_def MAX_HEIF_DIMENSION_def sharp_def call_def sendImage_def
        last_segment_def or_zero_def Let_def)

end
